theory Spec2Isabelle
  imports Complex_Main "HOL-Library.Sublist"
begin

section \<open>Python values\<close>

text \<open>
  A Python \<open>str\<close> is a sequence of Unicode code points, so it is modelled as a list of
  naturals (a \<open>char\<close> of HOL is a byte and would count UTF-8 units instead).
  \<open>u\<close> reads an ASCII literal; a code point beyond ASCII is written as its number.
\<close>

type_synonym ustr = "nat list"

definition u :: "string \<Rightarrow> ustr" where
  "u s = map of_char s"

text \<open>
  The floats that are not numbers of JSON proper but that Python's parser reads all the
  same: \<open>Infinity\<close> (also an overflowing literal such as \<open>1e999\<close>), \<open>-Infinity\<close> and \<open>NaN\<close>.
\<close>

datatype nonfinite = PosInf | NegInf | NaN

text \<open>
  What \<open>r.json()\<close> can return, and what the handler builds and returns: \<open>None\<close>, \<open>bool\<close>,
  \<open>int\<close>, \<open>float\<close> (\<open>JFloat\<close> for a finite double, by its rational value, \<open>JNonFinite\<close>
  for the three others), \<open>str\<close>, \<open>list\<close> and \<open>dict\<close>. A dict keeps its insertion order,
  so it is an association list; the keys of a dict that Python builds are distinct.
\<close>

datatype json =
    JNull
  | JBool bool
  | JInt int
  | JFloat rat
  | JNonFinite nonfinite
  | JStr ustr
  | JList "json list"
  | JDict "(ustr \<times> json) list"

text \<open>The exceptions the handler can raise outside its \<open>try\<close> block.\<close>

datatype pyexc = AttributeError | KeyError | TypeError | IndexError

text \<open>Truth value testing: \<open>None\<close>, \<open>False\<close>, zero and the empty containers are false.\<close>

fun truthy :: "json \<Rightarrow> bool" where
  "truthy JNull = False"
| "truthy (JBool b) = b"
| "truthy (JInt i) = (i \<noteq> 0)"
| "truthy (JFloat r) = (r \<noteq> 0)"
| "truthy (JNonFinite f) = True"
| "truthy (JStr s) = (s \<noteq> [])"
| "truthy (JList xs) = (xs \<noteq> [])"
| "truthy (JDict kvs) = (kvs \<noteq> [])"

text \<open>\<open>a or b\<close>, for a \<open>b\<close> whose evaluation cannot raise.\<close>

definition or_else :: "json \<Rightarrow> json \<Rightarrow> json" where
  "or_else a b = (if truthy a then a else b)"

text \<open>
  \<open>x.get(k)\<close>: a dict answers with the entry, or \<open>None\<close> when the key is missing; no other
  value of the model has an attribute \<open>get\<close>.
\<close>

fun py_get :: "json \<Rightarrow> ustr \<Rightarrow> pyexc + json" where
  "py_get (JDict kvs) k = Inr (case map_of kvs k of None \<Rightarrow> JNull | Some v \<Rightarrow> v)"
| "py_get _ k = Inl AttributeError"

text \<open>
  \<open>x[0]\<close>: the first element of a list, the first character of a str, \<open>KeyError\<close> on a
  dict parsed from JSON (its keys are strings), \<open>TypeError\<close> on every other value.
\<close>

fun py_index0 :: "json \<Rightarrow> pyexc + json" where
  "py_index0 (JList []) = Inl IndexError"
| "py_index0 (JList (x # xs)) = Inr x"
| "py_index0 (JStr []) = Inl IndexError"
| "py_index0 (JStr (c # cs)) = Inr (JStr [c])"
| "py_index0 (JDict kvs) = Inl KeyError"
| "py_index0 _ = Inl TypeError"

text \<open>Sequencing of steps that may raise: the first exception ends the computation.\<close>

definition and_then :: "pyexc + 'a \<Rightarrow> ('a \<Rightarrow> pyexc + 'b) \<Rightarrow> pyexc + 'b" where
  "and_then r f = (case r of Inl e \<Rightarrow> Inl e | Inr v \<Rightarrow> f v)"

subsection \<open>The string methods the handler calls\<close>

text \<open>
  \<open>str.isspace\<close> of one code point, as CPython's table of Unicode whitespace has it.
\<close>

definition is_space :: "nat \<Rightarrow> bool" where
  "is_space c = ((9 \<le> c \<and> c \<le> 13) \<or> (28 \<le> c \<and> c \<le> 32) \<or> c = 133 \<or> c = 160
     \<or> c = 5760 \<or> (8192 \<le> c \<and> c \<le> 8202) \<or> c = 8232 \<or> c = 8233 \<or> c = 8239
     \<or> c = 8287 \<or> c = 12288)"

definition lstrip :: "ustr \<Rightarrow> ustr" where
  "lstrip s = dropWhile is_space s"

definition rstrip :: "ustr \<Rightarrow> ustr" where
  "rstrip s = rev (dropWhile is_space (rev s))"

text \<open>\<open>s.strip()\<close>: whitespace is removed from both ends.\<close>

definition strip :: "ustr \<Rightarrow> ustr" where
  "strip s = rstrip (lstrip s)"

text \<open>\<open>x in s\<close> for two strs: \<open>x\<close> occurs in \<open>s\<close> as a contiguous run.\<close>

fun str_in :: "ustr \<Rightarrow> ustr \<Rightarrow> bool" where
  "str_in x [] = (x = [])"
| "str_in x (c # cs) = (prefix x (c # cs) \<or> str_in x cs)"

text \<open>
  The parts of the Python runtime that the handler relies on and that are taken as
  parameters: \<open>repr_of\<close> is \<open>str(v)\<close> for a value that is not a str (the printed form of
  numbers, lists and dicts), and \<open>lower_beyond_ascii s i\<close> is what \<open>s.lower()\<close> puts in
  the place of the code point at index \<open>i\<close> when that code point is not ASCII (Unicode
  case mapping may give several code points, and may look at the neighbours).
\<close>

record pyrt =
  repr_of :: "json \<Rightarrow> ustr"
  lower_beyond_ascii :: "ustr \<Rightarrow> nat \<Rightarrow> ustr"

text \<open>\<open>str(v)\<close>, and \<open>{v}\<close> in an f-string: a str is itself.\<close>

fun py_str :: "pyrt \<Rightarrow> json \<Rightarrow> ustr" where
  "py_str rt (JStr s) = s"
| "py_str rt v = repr_of rt v"

definition ascii_lower :: "nat \<Rightarrow> nat" where
  "ascii_lower c = (if 65 \<le> c \<and> c \<le> 90 then c + 32 else c)"

text \<open>\<open>s.lower()\<close>: an ASCII letter becomes its lower-case letter, other ASCII stays.\<close>

definition lower :: "pyrt \<Rightarrow> ustr \<Rightarrow> ustr" where
  "lower rt s =
     concat (map (\<lambda>i. if s ! i < 128 then [ascii_lower (s ! i)] else lower_beyond_ascii rt s i)
                 [0..<length s])"

section \<open>The application\<close>

definition DEEPSEEK_API_URL :: ustr where
  "DEEPSEEK_API_URL = u ''https://api.deepseek.com/v1/chat/completions''"

subsection \<open>Cross-origin configuration\<close>

definition ALLOWED_ORIGINS :: "ustr list" where
  "ALLOWED_ORIGINS = [u ''https://ben-gzf.github.io'', u ''http://localhost:3000'']"

record cors_config =
  allow_origins :: "ustr list"
  allow_credentials :: bool
  allow_methods :: "ustr list"
  allow_headers :: "ustr list"

text \<open>The arguments of \<open>app.add_middleware(CORSMiddleware, ...)\<close>.\<close>

definition cors :: cors_config where
  "cors = \<lparr> allow_origins = ALLOWED_ORIGINS,
            allow_credentials = False,
            allow_methods = [u ''POST'', u ''GET'', u ''OPTIONS''],
            allow_headers = [u ''*''] \<rparr>"

subsection \<open>Request models\<close>

record Msg =
  role :: ustr
  content :: ustr

record ChatReq =
  messages :: "Msg list"
  kb :: "ustr option"

subsection \<open>What a handler does, and what the framework answers\<close>

text \<open>
  A handler returns a value, raises \<open>HTTPException(status_code, detail)\<close>, or lets another
  exception escape.
\<close>

datatype outcome =
    Returned json
  | HTTPException int ustr
  | Uncaught pyexc

text \<open>
  The framework renders a body with
  \<open>json.dumps(v, ensure_ascii=False, allow_nan=False).encode("utf-8")\<close>. UTF-8 encodes a
  str only when each of its code points is a Unicode scalar value, that is, no
  surrogate (a str parsed from the JSON text \<open>"\ud800"\<close> holds one); \<open>allow_nan=False\<close>
  refuses the floats that are not finite. Both failures are exceptions.
\<close>

definition scalar :: "nat \<Rightarrow> bool" where
  "scalar c = (c < 55296 \<or> (57343 < c \<and> c < 1114112))"

definition encodable :: "ustr \<Rightarrow> bool" where
  "encodable s = list_all scalar s"

fun renderable :: "json \<Rightarrow> bool" where
  "renderable (JNonFinite f) = False"
| "renderable (JStr s) = encodable s"
| "renderable (JList xs) = list_all renderable xs"
| "renderable (JDict kvs) = list_all (\<lambda>kv. encodable (fst kv) \<and> renderable (snd kv)) kvs"
| "renderable _ = True"

text \<open>
  The framework's answer. A returned value that renders is sent as JSON with status 200;
  an \<open>HTTPException\<close> whose detail renders is sent as \<open>{"detail": detail}\<close> with its own
  status; an exception that escapes the handler, and likewise an exception of the
  rendering, is answered with the plain text \<open>Internal Server Error\<close> and status 500.
  The limits of the interpreter's resources (recursion depth on a deeply nested value,
  memory) are not part of the model.
\<close>

fun http_status :: "outcome \<Rightarrow> int" where
  "http_status (Returned v) = (if renderable v then 200 else 500)"
| "http_status (HTTPException code detail) = (if encodable detail then code else 500)"
| "http_status (Uncaught e) = 500"

fun http_body :: "outcome \<Rightarrow> json" where
  "http_body (Returned v) = (if renderable v then v else JStr (u ''Internal Server Error''))"
| "http_body (HTTPException code detail) =
     (if encodable detail then JDict [(u ''detail'', JStr detail)]
      else JStr (u ''Internal Server Error''))"
| "http_body (Uncaught e) = JStr (u ''Internal Server Error'')"

subsection \<open>\<open>GET /health\<close>\<close>

definition health :: outcome where
  "health = Returned (JDict [(u ''ok'', JBool True)])"

subsection \<open>\<open>POST /chat\<close>\<close>

text \<open>
  The loop over \<open>reversed(req.messages)\<close>: \<open>last_user\<close> starts as the empty string and is
  set, once, at the first message whose role is \<open>"user"\<close>.
\<close>

fun first_user :: "Msg list \<Rightarrow> ustr" where
  "first_user [] = []"
| "first_user (m # ms) = (if role m = u ''user'' then content m else first_user ms)"

definition last_user :: "ChatReq \<Rightarrow> ustr" where
  "last_user req = first_user (rev (messages req))"

text \<open>\<open>kb = (req.kb or "").strip()\<close>\<close>

definition kb_text :: "ChatReq \<Rightarrow> ustr" where
  "kb_text req = strip (case kb req of None \<Rightarrow> [] | Some s \<Rightarrow> if s \<noteq> [] then s else [])"

definition system_prompt :: ustr where
  \<open>system_prompt = strip (concat [
    u ''\<newline>'',
    u ''You are BenBot, the personal website assistant for Zhefan (Ben) Guo.\<newline>'',
    u ''\<newline>'',
    u ''Hard rules:\<newline>'',
    u ''- Use ONLY facts that appear in the Knowledge Base.\<newline>'',
    u ''- If the Knowledge Base does not contain the answer, say you don't have that information.\<newline>'',
    u ''- Do NOT invent names, labs, achievements, dates, or links.\<newline>'',
    u ''- If not in KB: say you don't have that information, and optionally suggest checking the resume.\<newline>'',
    u ''- Do NOT use Markdown links. If sharing a link, output the raw URL only.\<newline>'',
    u ''- Do NOT use any Markdown formatting (no **bold**, no backticks, no markdown bullets).\<newline>'',
    u ''- When sharing any link, output the raw URL only (no surrounding punctuation like ** or parentheses).\<newline>'',
    u ''\<newline>'',
    u ''Style:\<newline>'',
    u ''- Sound friendly and human, not like a template.\<newline>'',
    u ''- Vary phrasing (avoid repeating the same sentence patterns).\<newline>'',
    u ''- Prefer short paragraphs and bullet points when helpful.\<newline>'',
    u ''- You may add light conversational phrases as long as you do NOT add new facts.\<newline>'',
    u ''- Make sure you act like a vivid chatAgent\<newline>'',
    u ''- You can also include some Emojis, but not too often.\<newline>'',
    u ''- If the user asks "who are you" or "who is Ben", give a 2-4 sentence intro, then offer what they can ask next.\<newline>'',
    u ''\<newline>'',
    u ''Language: English.\<newline>''])\<close>

definition style_examples :: ustr where
  \<open>style_examples = strip (concat [
    u ''\<newline>'',
    u ''Examples (style only):\<newline>'',
    u ''User: what's my email?\<newline>'',
    u ''Assistant: Sure '' @ [8212] @ u '' Ben's email is zhefan.guo@uconn.edu.\<newline>'',
    u ''\<newline>'',
    u ''User: tell me who you are\<newline>'',
    u ''Assistant: I'm BenBot '' @ [8212] @ u '' a small assistant on Ben's website. I can help with Ben's background, projects, and links (based only on what's listed on the site).\<newline>'',
    u ''\<newline>'',
    u ''User: tell me who is Ben\<newline>'',
    u ''Assistant: Ben (Zhefan Guo) is a Computer Science major with a Mathematics minor at UConn, graduating in 2026. Want his projects or links?\<newline>''])\<close>

definition chat_message :: "ustr \<Rightarrow> ustr \<Rightarrow> json" where
  "chat_message r c = JDict [(u ''role'', JStr r), (u ''content'', JStr c)]"

definition payload :: "ustr \<Rightarrow> ustr \<Rightarrow> json" where
  "payload kb_str last_user_str = JDict [
     (u ''model'', JStr (u ''deepseek-chat'')),
     (u ''temperature'', JFloat (1 / 2)),
     (u ''messages'', JList [
        chat_message (u ''system'') system_prompt,
        chat_message (u ''system'') style_examples,
        chat_message (u ''system'') (u ''Knowledge Base:\<newline>'' @ kb_str),
        chat_message (u ''user'') last_user_str])]"

definition headers :: "ustr \<Rightarrow> (ustr \<times> ustr) list" where
  "headers api_key = [
     (u ''Authorization'', u ''Bearer '' @ api_key),
     (u ''Content-Type'', u ''application/json'')]"

text \<open>One outbound \<open>client.post(url, headers=..., json=...)\<close> of a client with a timeout.\<close>

record upstream_call =
  timeout_s :: nat
  url :: ustr
  call_headers :: "(ustr \<times> ustr) list"
  call_json :: json

text \<open>
  What the \<open>try\<close> block meets, given the call: \<open>Inl t\<close> when \<open>client.post\<close> raises an
  exception whose text is \<open>t\<close>; \<open>Inr (status, Inl t)\<close> when the response arrives with that
  status and \<open>r.json()\<close> raises; \<open>Inr (status, Inr data)\<close> when the body parses to \<open>data\<close>.
\<close>

type_synonym upstream = "upstream_call \<Rightarrow> ustr + (int \<times> (ustr + json))"

definition misconfigured :: ustr where
  "misconfigured = u ''Server misconfigured: DEEPSEEK_API_KEY is missing on Render env vars.''"

definition unavailable :: ustr where
  "unavailable = u ''BenBot is temporarily unavailable (API balance is not set up yet). Please check back later or use the contact email: zhefan.guo@uconn.edu.''"

definition no_response :: ustr where
  "no_response = u ''Sorry '' @ [8212] @ u '' no response.''"

definition answer :: "json \<Rightarrow> json" where
  "answer a = JDict [(u ''answer'', a)]"

text \<open>
  The branch \<open>r.status_code >= 400\<close>:
  \<open>msg = (data.get("error") or {}).get("message") or data.get("message") or str(data)\<close>,
  then the test for the balance message and the two returns.
\<close>

definition error_msg :: "pyrt \<Rightarrow> json \<Rightarrow> pyexc + json" where
  "error_msg rt data =
     and_then (py_get data (u ''error'')) (\<lambda>err.
     and_then (py_get (or_else err (JDict [])) (u ''message'')) (\<lambda>m1.
       if truthy m1 then Inr m1
       else and_then (py_get data (u ''message'')) (\<lambda>m2.
         if truthy m2 then Inr m2 else Inr (JStr (py_str rt data)))))"

definition error_answer :: "pyrt \<Rightarrow> json \<Rightarrow> pyexc + json" where
  "error_answer rt data =
     and_then (error_msg rt data) (\<lambda>msg.
       if str_in (u ''insufficient balance'') (lower rt (py_str rt msg))
       then Inr (answer (JStr unavailable))
       else Inr (answer (JStr (u ''DeepSeek API error: '' @ py_str rt msg))))"

text \<open>
  The last two lines:
  \<open>(((data.get("choices") or [{}])[0].get("message") or {}).get("content")) or "Sorry ... no response."\<close>
\<close>

definition success_answer :: "json \<Rightarrow> pyexc + json" where
  "success_answer data =
     and_then (py_get data (u ''choices'')) (\<lambda>choices.
     and_then (py_index0 (or_else choices (JList [JDict []]))) (\<lambda>choice.
     and_then (py_get choice (u ''message'')) (\<lambda>message.
     and_then (py_get (or_else message (JDict [])) (u ''content'')) (\<lambda>c.
       Inr (answer (or_else c (JStr no_response)))))))"

definition finish :: "pyexc + json \<Rightarrow> outcome" where
  "finish r = (case r of Inl e \<Rightarrow> Uncaught e | Inr v \<Rightarrow> Returned v)"

text \<open>The call inside the \<open>try\<close> block, for a non-empty key.\<close>

definition upstream_request :: "ustr \<Rightarrow> ChatReq \<Rightarrow> upstream_call" where
  "upstream_request k req =
     \<lparr> timeout_s = 60, url = DEEPSEEK_API_URL, call_headers = headers k,
       call_json = payload (kb_text req) (last_user req) \<rparr>"

text \<open>
  The handler. \<open>api_key\<close> is \<open>os.getenv("DEEPSEEK_API_KEY")\<close>; the result is the handler's
  outcome together with the outbound calls it made, in order.
\<close>

definition chat :: "pyrt \<Rightarrow> ustr option \<Rightarrow> upstream \<Rightarrow> ChatReq \<Rightarrow> outcome \<times> upstream_call list" where
  "chat rt api_key post req =
     (case api_key of
        None \<Rightarrow> (Returned (answer (JStr misconfigured)), [])
      | Some k \<Rightarrow>
          if k = [] then (Returned (answer (JStr misconfigured)), [])
          else
            let call = upstream_request k req
            in (case post call of
                  Inl t \<Rightarrow> (HTTPException 500 t, [call])
                | Inr (status, Inl t) \<Rightarrow> (HTTPException 500 t, [call])
                | Inr (status, Inr data) \<Rightarrow>
                    if status \<ge> 400 then (finish (error_answer rt data), [call])
                    else (finish (success_answer data), [call])))"

subsection \<open>The shape of a completion, in the words of the specification\<close>

text \<open>
  The content of the first choice's message: present when the body is an object whose
  \<open>choices\<close> is a list that starts with an object, whose \<open>message\<close> is an object with
  a \<open>content\<close> field.
\<close>

definition first_choice_content :: "json \<Rightarrow> json option" where
  "first_choice_content data =
     (case data of
        JDict d \<Rightarrow>
          (case map_of d (u ''choices'') of
             Some (JList (JDict c # rest)) \<Rightarrow>
               (case map_of c (u ''message'') of
                  Some (JDict m) \<Rightarrow> map_of m (u ''content'')
                | _ \<Rightarrow> None)
           | _ \<Rightarrow> None)
      | _ \<Rightarrow> None)"

text \<open>A field that is missing, or holds a false value, or holds an object.\<close>

fun falsy_or_object :: "json option \<Rightarrow> bool" where
  "falsy_or_object None = True"
| "falsy_or_object (Some (JDict kvs)) = True"
| "falsy_or_object (Some v) = (\<not> truthy v)"

text \<open>
  A completion body of the documented shape, with every part optional: an object whose
  \<open>choices\<close> is missing or false, or is a list that starts with an object whose
  \<open>message\<close> is missing, false or an object.
\<close>

definition completion_shaped :: "json \<Rightarrow> bool" where
  "completion_shaped data =
     (case data of
        JDict d \<Rightarrow>
          (case map_of d (u ''choices'') of
             None \<Rightarrow> True
           | Some (JList (JDict c # rest)) \<Rightarrow> falsy_or_object (map_of c (u ''message''))
           | Some v \<Rightarrow> \<not> truthy v)
      | _ \<Rightarrow> False)"

subsection \<open>The cross-origin middleware\<close>

text \<open>
  The class \<open>CORSMiddleware\<close> belongs to the web framework and is not among the
  repository's files; what it does with the configuration is taken from section 4.1 of
  the specification.
\<close>

text \<open>
  Modelled from the spec: the origin check of \<open>CORSMiddleware\<close>. A request may complete a
  browser-initiated call only when its \<open>Origin\<close> matches an entry of the allow-list as an
  exact string; the entry \<open>*\<close> is the wildcard.
\<close>

definition origin_allowed :: "cors_config \<Rightarrow> ustr \<Rightarrow> bool" where
  "origin_allowed cfg origin = (u ''*'' \<in> set (allow_origins cfg) \<or> origin \<in> set (allow_origins cfg))"

text \<open>
  Modelled from the spec: the \<open>Access-Control-Allow-Origin\<close> header that \<open>CORSMiddleware\<close>
  puts on the response to a request with the given origin, \<open>None\<close> when the response
  carries none; an origin outside the allow-list receives no permissive header.
\<close>

definition allow_origin_header :: "cors_config \<Rightarrow> ustr \<Rightarrow> ustr option" where
  "allow_origin_header cfg origin =
     (if u ''*'' \<in> set (allow_origins cfg) then Some (u ''*'')
      else if origin \<in> set (allow_origins cfg) then Some origin
      else None)"

text \<open>
  Modelled from the spec: the \<open>Access-Control-Allow-Credentials\<close> header of
  \<open>CORSMiddleware\<close>, present only when the configuration honours credentials.
\<close>

definition allow_credentials_header :: "cors_config \<Rightarrow> ustr option" where
  "allow_credentials_header cfg = (if allow_credentials cfg then Some (u ''true'') else None)"

text \<open>
  Modelled from the spec: the methods and the request headers that \<open>CORSMiddleware\<close>
  allows are those of the configuration, \<open>*\<close> standing for every header.
\<close>

definition method_allowed :: "cors_config \<Rightarrow> ustr \<Rightarrow> bool" where
  "method_allowed cfg m = (m \<in> set (allow_methods cfg))"

definition header_allowed :: "cors_config \<Rightarrow> ustr \<Rightarrow> bool" where
  "header_allowed cfg h = (u ''*'' \<in> set (allow_headers cfg) \<or> h \<in> set (allow_headers cfg))"

section \<open>Properties\<close>

subsection \<open>Literals, substrings and trimming\<close>

lemma u_inj: "u a = u b \<longleftrightarrow> a = b"
  by (simp add: u_def inj_map_eq_map inj_on_def)

lemma u_eq_Nil: "u a = [] \<longleftrightarrow> a = []"
  by (simp add: u_def)

text \<open>
  The fixed texts of the handler render: an ASCII literal has no surrogate, and neither
  has the fallback text with its dash.
\<close>

lemma encodable_u: "encodable (u s)"
proof -
  have "scalar (of_char c)" for c :: char
  proof -
    have "of_char c < (256 :: nat)"
      by (rule nat_of_char_less_256)
    then have "of_char c < (55296 :: nat)"
      by linarith
    then show ?thesis
      by (simp add: scalar_def)
  qed
  then show ?thesis
    by (simp add: encodable_def u_def list_all_iff)
qed

lemma encodable_append: "encodable (a @ b) \<longleftrightarrow> encodable a \<and> encodable b"
  by (simp add: encodable_def)

lemma encodable_Cons: "encodable (c # s) \<longleftrightarrow> scalar c \<and> encodable s"
  by (simp add: encodable_def)

lemma encodable_no_response: "encodable no_response"
proof -
  have "scalar 8212"
    by (simp add: scalar_def)
  then show ?thesis
    by (simp add: no_response_def encodable_append encodable_Cons encodable_u)
qed

lemma encodable_misconfigured: "encodable misconfigured"
  by (simp add: misconfigured_def encodable_u)

lemma str_in_sublist: "str_in x s = sublist x s"
  by (induction s) (simp_all add: sublist_Cons_right)

text \<open>
  Trimming splits a string into leading whitespace, the result and trailing whitespace,
  and a result that is not empty neither starts nor ends with whitespace.
\<close>

lemma lstrip_decomp: "takeWhile is_space s @ lstrip s = s"
  by (simp add: lstrip_def)

lemma rstrip_decomp: "rstrip s @ rev (takeWhile is_space (rev s)) = s"
proof -
  have "rev (takeWhile is_space (rev s) @ dropWhile is_space (rev s)) = s"
    by simp
  then show ?thesis
    unfolding rev_append rstrip_def .
qed

lemma strip_decomp:
  "\<exists>pre post. s = pre @ strip s @ post \<and> list_all is_space pre \<and> list_all is_space post"
proof (intro exI conjI)
  show "s = takeWhile is_space s @ strip s @ rev (takeWhile is_space (rev (lstrip s)))"
    using rstrip_decomp [of "lstrip s"] lstrip_decomp [of s] by (simp add: strip_def)
  show "list_all is_space (takeWhile is_space s)"
    by (simp add: list_all_iff) (meson set_takeWhileD)
  show "list_all is_space (rev (takeWhile is_space (rev (lstrip s))))"
    by (simp add: list_all_iff) (meson set_takeWhileD)
qed

lemma strip_last: "strip s \<noteq> [] \<Longrightarrow> \<not> is_space (last (strip s))"
  by (simp add: strip_def rstrip_def last_rev hd_dropWhile)

lemma strip_hd:
  assumes "strip s \<noteq> []"
  shows "\<not> is_space (hd (strip s))"
proof -
  have ne: "lstrip s \<noteq> []"
    using assms by (auto simp: strip_def rstrip_def)
  have "hd (rstrip (lstrip s) @ rev (takeWhile is_space (rev (lstrip s)))) = hd (strip s)"
    using assms by (simp add: strip_def)
  then have "hd (strip s) = hd (lstrip s)"
    by (simp only: rstrip_decomp)
  moreover have "\<not> is_space (hd (lstrip s))"
    using ne unfolding lstrip_def by (rule hd_dropWhile)
  ultimately show ?thesis by simp
qed

text \<open>
  On a string of ASCII code points \<open>lower\<close> is the letter-wise ASCII mapping, whatever
  the runtime does beyond ASCII.
\<close>

lemma lower_ascii:
  assumes "\<forall>c\<in>set s. c < 128"
  shows "lower rt s = map ascii_lower s"
proof -
  have "map (\<lambda>i. if s ! i < 128 then [ascii_lower (s ! i)] else lower_beyond_ascii rt s i)
          [0..<length s] = map (\<lambda>i. [ascii_lower (s ! i)]) [0..<length s]"
    using assms by simp
  then have "lower rt s = concat (map (\<lambda>i. [ascii_lower (s ! i)]) [0..<length s])"
    by (simp only: lower_def)
  also have "\<dots> = map (\<lambda>i. ascii_lower (s ! i)) [0..<length s]"
    by (simp only: concat_map_singleton)
  also have "\<dots> = map ascii_lower (map (\<lambda>i. s ! i) [0..<length s])"
    by simp
  also have "\<dots> = map ascii_lower s"
    by (simp only: map_nth)
  finally show ?thesis .
qed

lemmas chat_simps = chat_def upstream_request_def finish_def and_then_def or_else_def
  answer_def error_answer_def error_msg_def success_answer_def u_inj u_eq_Nil

subsection \<open>\<open>GET /health\<close>\<close>

text \<open>
  Claim C7. Every request to \<open>GET /health\<close> is answered with exactly \<open>{"ok": true}\<close>
  and status 200: the handler takes no input and has one outcome, a returned value.
\<close>

theorem health_ok:
  "health = Returned (JDict [(u ''ok'', JBool True)])
   \<and> http_status health = 200 \<and> http_body health = JDict [(u ''ok'', JBool True)]"
  by (simp add: health_def encodable_u)

subsection \<open>The cross-origin configuration\<close>

text \<open>
  Claim C8. The configured allow-list is the two exact origins and has no wildcard, so
  an origin is allowed exactly when it is one of them, and only then does a response
  carry \<open>Access-Control-Allow-Origin\<close> (naming that origin); credentials are never
  honoured; the allowed methods are exactly POST, GET and OPTIONS; every header is
  accepted.
\<close>

theorem cors_policy:
  "allow_origins cors = [u ''https://ben-gzf.github.io'', u ''http://localhost:3000'']
   \<and> u ''*'' \<notin> set (allow_origins cors)
   \<and> origin_allowed cors origin
       = (origin = u ''https://ben-gzf.github.io'' \<or> origin = u ''http://localhost:3000'')
   \<and> allow_origin_header cors origin = (if origin_allowed cors origin then Some origin else None)
   \<and> \<not> allow_credentials cors
   \<and> allow_credentials_header cors = None
   \<and> method_allowed cors m = (m = u ''POST'' \<or> m = u ''GET'' \<or> m = u ''OPTIONS'')
   \<and> header_allowed cors h"
  by (auto simp: cors_def ALLOWED_ORIGINS_def origin_allowed_def allow_origin_header_def
      allow_credentials_header_def method_allowed_def header_allowed_def u_inj)

subsection \<open>The missing credential\<close>

text \<open>
  Claim C5. When the API key is absent from the environment, \<open>/chat\<close> returns, for every
  request and whatever the upstream would do, the answer that starts with
  \<open>Server misconfigured\<close>, with status 200, and makes no outbound call.
\<close>

theorem missing_key_soft_fail:
  "chat rt None upstream req = (Returned (JDict [(u ''answer'', JStr misconfigured)]), [])
   \<and> http_status (fst (chat rt None upstream req)) = 200
   \<and> str_in (u ''Server misconfigured'') misconfigured"
proof -
  have "str_in (u ''Server misconfigured'') misconfigured"
    by (simp add: misconfigured_def u_def)
  then show ?thesis
    by (simp add: chat_def answer_def encodable_u encodable_misconfigured)
qed

text \<open>
  Claim C10. A key that is set to the empty string is treated as a missing key: the same
  answer with status 200, and no outbound call.
\<close>

theorem empty_key_is_missing_key:
  "chat rt (Some []) upstream req = chat rt None upstream req
   \<and> chat rt (Some []) upstream req = (Returned (JDict [(u ''answer'', JStr misconfigured)]), [])
   \<and> http_status (fst (chat rt (Some []) upstream req)) = 200"
  by (simp add: chat_def answer_def encodable_u encodable_misconfigured)

subsection \<open>The last user message\<close>

lemma first_user_none: "\<forall>x\<in>set ms. role x \<noteq> u ''user'' \<Longrightarrow> first_user ms = []"
  by (induction ms) auto

lemma first_user_found:
  "\<forall>x\<in>set pre. role x \<noteq> u ''user'' \<Longrightarrow> role m = u ''user'' \<Longrightarrow>
     first_user (pre @ m # post) = content m"
  by (induction pre) auto

text \<open>
  Claim C1. \<open>last_user\<close> is the empty string when no message has the role \<open>"user"\<close>
  (in particular when there are no messages), and it is the content of the message with
  role \<open>"user"\<close> that no later message with that role follows; the messages after it,
  with other roles, and the messages before it do not matter.
\<close>

theorem last_user_spec:
  "((\<forall>x\<in>set (messages req). role x \<noteq> u ''user'') \<longrightarrow> last_user req = [])
   \<and> (\<forall>before m after.
        messages req = before @ m # after \<and> role m = u ''user''
          \<and> (\<forall>x\<in>set after. role x \<noteq> u ''user'')
        \<longrightarrow> last_user req = content m)"
proof (intro conjI impI allI)
  assume "\<forall>x\<in>set (messages req). role x \<noteq> u ''user''"
  then show "last_user req = []"
    by (simp add: last_user_def first_user_none)
next
  fix before m after
  assume h: "messages req = before @ m # after \<and> role m = u ''user''
    \<and> (\<forall>x\<in>set after. role x \<noteq> u ''user'')"
  then have "first_user (rev after @ m # rev before) = content m"
    by (intro first_user_found) auto
  with h show "last_user req = content m"
    by (simp add: last_user_def)
qed

text \<open>
  The theorem at two requests: two user turns followed by an assistant turn, and a
  request with a system turn only.
\<close>

theorem last_user_spec_witness:
  "last_user \<lparr> messages = [\<lparr> role = u ''user'', content = u ''first'' \<rparr>,
                           \<lparr> role = u ''user'', content = u ''second'' \<rparr>,
                           \<lparr> role = u ''assistant'', content = u ''reply'' \<rparr>],
               kb = None \<rparr> = u ''second''
   \<and> last_user \<lparr> messages = [\<lparr> role = u ''system'', content = u ''rules'' \<rparr>], kb = None \<rparr> = []"
proof
  let ?m1 = "\<lparr> role = u ''user'', content = u ''first'' \<rparr>"
  let ?m2 = "\<lparr> role = u ''user'', content = u ''second'' \<rparr>"
  let ?m3 = "\<lparr> role = u ''assistant'', content = u ''reply'' \<rparr>"
  let ?req = "\<lparr> messages = [?m1, ?m2, ?m3], kb = None \<rparr>"
  have "messages ?req = [?m1] @ ?m2 # [?m3] \<and> role ?m2 = u ''user''
      \<and> (\<forall>x\<in>set [?m3]. role x \<noteq> u ''user'')"
    by (simp add: u_inj)
  with last_user_spec [of ?req, THEN conjunct2, rule_format, of "[?m1]" ?m2 "[?m3]"]
  show "last_user ?req = u ''second''"
    by simp
next
  let ?req = "\<lparr> messages = [\<lparr> role = u ''system'', content = u ''rules'' \<rparr>], kb = None \<rparr>"
  have "\<forall>x\<in>set (messages ?req). role x \<noteq> u ''user''"
    by (simp add: u_inj)
  with last_user_spec [of ?req, THEN conjunct1]
  show "last_user ?req = []"
    by simp
qed

subsection \<open>The outbound payload\<close>

lemma kb_text_decomp:
  "\<exists>pre post. (case kb req of None \<Rightarrow> [] | Some s \<Rightarrow> s) = pre @ kb_text req @ post
      \<and> list_all is_space pre \<and> list_all is_space post"
proof -
  have "(case kb req of None \<Rightarrow> [] | Some s \<Rightarrow> if s \<noteq> [] then s else [])
      = (case kb req of None \<Rightarrow> [] | Some s \<Rightarrow> s)"
    by (simp split: option.split)
  then show ?thesis
    using strip_decomp [of "case kb req of None \<Rightarrow> [] | Some s \<Rightarrow> s"]
    by (simp add: kb_text_def)
qed

lemma kb_text_ends:
  "kb_text req = [] \<or> (\<not> is_space (hd (kb_text req)) \<and> \<not> is_space (last (kb_text req)))"
  unfolding kb_text_def using strip_hd strip_last by blast

lemma calls_with_key:
  "k \<noteq> [] \<Longrightarrow> snd (chat rt (Some k) upstream req) = [upstream_request k req]"
  by (simp add: chat_def Let_def split: sum.split prod.split)

text \<open>
  Claim C2. With a non-empty API key the handler makes exactly one outbound call, and
  its JSON payload is the model \<open>deepseek-chat\<close>, the temperature 0.5 and four messages
  in this order: the persona and rules, the style examples, \<open>Knowledge Base:\<close> and a
  newline followed by the trimmed knowledge base, and the last user message. The
  trimmed knowledge base is the request's \<open>kb\<close> (the empty string when it is null)
  without its leading and trailing whitespace.
\<close>

theorem upstream_payload:
  assumes "k \<noteq> []"
  shows "\<exists>pre kbs post.
      (case kb req of None \<Rightarrow> [] | Some s \<Rightarrow> s) = pre @ kbs @ post
    \<and> list_all is_space pre \<and> list_all is_space post
    \<and> (kbs = [] \<or> (\<not> is_space (hd kbs) \<and> \<not> is_space (last kbs)))
    \<and> map call_json (snd (chat rt (Some k) upstream req)) =
        [JDict [
          (u ''model'', JStr (u ''deepseek-chat'')),
          (u ''temperature'', JFloat (1 / 2)),
          (u ''messages'', JList [
             JDict [(u ''role'', JStr (u ''system'')), (u ''content'', JStr system_prompt)],
             JDict [(u ''role'', JStr (u ''system'')), (u ''content'', JStr style_examples)],
             JDict [(u ''role'', JStr (u ''system'')),
                    (u ''content'', JStr (u ''Knowledge Base:\<newline>'' @ kbs))],
             JDict [(u ''role'', JStr (u ''user'')), (u ''content'', JStr (last_user req))]])]]"
proof -
  obtain pre post where d: "(case kb req of None \<Rightarrow> [] | Some s \<Rightarrow> s) = pre @ kb_text req @ post"
    "list_all is_space pre" "list_all is_space post"
    using kb_text_decomp by blast
  have "map call_json (snd (chat rt (Some k) upstream req)) = [payload (kb_text req) (last_user req)]"
    using assms by (simp add: calls_with_key upstream_request_def)
  moreover note d kb_text_ends [of req]
  ultimately show ?thesis
    by (intro exI [of _ pre] exI [of _ "kb_text req"] exI [of _ post])
      (simp add: payload_def chat_message_def)
qed

text \<open>
  The theorem at a request whose knowledge base has whitespace at both ends.
\<close>

theorem upstream_payload_witness:
  "u ''sk'' \<noteq> []
   \<and> (\<forall>rt upstream. \<exists>pre kbs post.
        u '' Ben studies at UConn.\<newline>'' = pre @ kbs @ post
      \<and> list_all is_space pre \<and> list_all is_space post
      \<and> (kbs = [] \<or> (\<not> is_space (hd kbs) \<and> \<not> is_space (last kbs)))
      \<and> map call_json (snd (chat rt (Some (u ''sk'')) upstream
            \<lparr> messages = [\<lparr> role = u ''user'', content = u ''hi'' \<rparr>],
              kb = Some (u '' Ben studies at UConn.\<newline>'') \<rparr>)) =
          [JDict [
            (u ''model'', JStr (u ''deepseek-chat'')),
            (u ''temperature'', JFloat (1 / 2)),
            (u ''messages'', JList [
               JDict [(u ''role'', JStr (u ''system'')), (u ''content'', JStr system_prompt)],
               JDict [(u ''role'', JStr (u ''system'')), (u ''content'', JStr style_examples)],
               JDict [(u ''role'', JStr (u ''system'')),
                      (u ''content'', JStr (u ''Knowledge Base:\<newline>'' @ kbs))],
               JDict [(u ''role'', JStr (u ''user'')), (u ''content'', JStr (u ''hi''))]])]])"
proof -
  let ?req = "\<lparr> messages = [\<lparr> role = u ''user'', content = u ''hi'' \<rparr>],
                kb = Some (u '' Ben studies at UConn.\<newline>'') \<rparr>"
  have k: "u ''sk'' \<noteq> []"
    by (simp add: u_eq_Nil)
  have l: "last_user ?req = u ''hi''"
    by (simp add: last_user_def u_inj)
  show ?thesis
    using k upstream_payload [OF k, of ?req] by (simp add: l)
qed

subsection \<open>Upstream answers with a status below 400\<close>

lemma completion_shaped_choices:
  assumes "completion_shaped (JDict d)" and "map_of d (u ''choices'') = Some ch" and "truthy ch"
  shows "\<exists>c rest. ch = JList (JDict c # rest) \<and> falsy_or_object (map_of c (u ''message''))"
proof (cases ch)
  case (JList xs)
  show ?thesis
  proof (cases xs)
    case Nil
    with assms JList show ?thesis by simp
  next
    case (Cons x rest)
    with assms JList show ?thesis
      by (cases x) (simp_all add: completion_shaped_def)
  qed
qed (use assms in \<open>simp_all add: completion_shaped_def\<close>)

lemma first_choice_content_falsy:
  assumes "map_of d (u ''choices'') = Some ch" and "\<not> truthy ch"
  shows "first_choice_content (JDict d) = None"
  using assms by (cases ch) (simp_all add: first_choice_content_def)

lemma first_choice_content_choice:
  assumes "map_of d (u ''choices'') = Some (JList (JDict c # rest))"
  shows "first_choice_content (JDict d) =
     (case map_of c (u ''message'') of Some (JDict m) \<Rightarrow> map_of m (u ''content'') | _ \<Rightarrow> None)"
  using assms by (simp add: first_choice_content_def)


lemma success_answer_no_choice:
  assumes "map_of d (u ''choices'') = None \<or> (\<exists>ch. map_of d (u ''choices'') = Some ch \<and> \<not> truthy ch)"
  shows "success_answer (JDict d) = Inr (answer (JStr no_response))"
  using assms by (auto simp: success_answer_def and_then_def or_else_def)

lemma success_answer_choice:
  assumes "map_of d (u ''choices'') = Some (JList (JDict c # rest))"
    and "falsy_or_object (map_of c (u ''message''))"
  shows "success_answer (JDict d) =
     Inr (answer (case first_choice_content (JDict d) of
                    None \<Rightarrow> JStr no_response
                  | Some v \<Rightarrow> if truthy v then v else JStr no_response))"
proof (cases "map_of c (u ''message'')")
  case None
  with assms show ?thesis
    by (simp add: success_answer_def and_then_def or_else_def first_choice_content_choice)
next
  case (Some m)
  show ?thesis
  proof (cases "truthy m")
    case False
    then have "first_choice_content (JDict d) = None"
      using assms(1) Some by (cases m) (simp_all add: first_choice_content_choice)
    with assms(1) Some False show ?thesis
      by (simp add: success_answer_def and_then_def or_else_def)
  next
    case True
    with assms(2) Some obtain kvs where m: "m = JDict kvs"
      by (cases m) simp_all
    with assms(1) Some True show ?thesis
      by (simp add: success_answer_def and_then_def or_else_def first_choice_content_choice
          split: option.split)
  qed
qed

lemma success_answer_shaped:
  assumes "completion_shaped data"
  shows "success_answer data =
     Inr (answer (case first_choice_content data of
                    None \<Rightarrow> JStr no_response
                  | Some v \<Rightarrow> if truthy v then v else JStr no_response))"
proof (cases data)
  case (JDict d)
  show ?thesis
  proof (cases "map_of d (u ''choices'')")
    case None
    then have "first_choice_content (JDict d) = None"
      by (simp add: first_choice_content_def)
    with None JDict show ?thesis
      by (simp add: success_answer_no_choice)
  next
    case (Some ch)
    show ?thesis
    proof (cases "truthy ch")
      case False
      with Some JDict show ?thesis
        by (simp add: success_answer_no_choice first_choice_content_falsy)
    next
      case True
      with assms JDict Some obtain c rest where "ch = JList (JDict c # rest)"
        and "falsy_or_object (map_of c (u ''message''))"
        using completion_shaped_choices by blast
      with JDict Some show ?thesis
        by (simp add: success_answer_choice)
    qed
  qed
qed (use assms in \<open>simp_all add: completion_shaped_def\<close>)

lemma content_present_shaped:
  assumes "first_choice_content data = Some v"
  shows "completion_shaped data"
proof (cases data)
  case (JDict d)
  from assms JDict obtain ch where ch: "map_of d (u ''choices'') = Some ch"
    by (cases "map_of d (u ''choices'')") (simp_all add: first_choice_content_def)
  from assms JDict ch obtain xs where xs: "ch = JList xs"
    by (cases ch) (simp_all add: first_choice_content_def)
  from assms JDict ch xs obtain x rest where x: "xs = x # rest"
    by (cases xs) (simp_all add: first_choice_content_def)
  from assms JDict ch xs x obtain c where c: "x = JDict c"
    by (cases x) (simp_all add: first_choice_content_def)
  from assms JDict ch xs x c obtain m where m: "map_of c (u ''message'') = Some m"
    by (cases "map_of c (u ''message'')") (simp_all add: first_choice_content_def)
  from assms JDict ch xs x c m obtain kvs where "m = JDict kvs"
    by (cases m) (simp_all add: first_choice_content_def)
  with JDict ch xs x c m show ?thesis
    by (simp add: completion_shaped_def)
qed (use assms in \<open>simp_all add: first_choice_content_def\<close>)

lemma chat_success:
  assumes "k \<noteq> []" and "upstream (upstream_request k req) = Inr (status, Inr data)"
    and "status < 400"
  shows "fst (chat rt (Some k) upstream req) = finish (success_answer data)"
  using assms by (simp add: chat_def)

text \<open>
  A body that is not of the documented shape makes the extraction raise.
\<close>

lemma success_answer_raises:
  assumes "\<not> completion_shaped data"
  shows "\<exists>e. success_answer data = Inl e"
proof (cases data)
  case (JDict d)
  with assms obtain ch where ch: "map_of d (u ''choices'') = Some ch"
    by (cases "map_of d (u ''choices'')") (simp_all add: completion_shaped_def)
  have t: "truthy ch"
    using assms JDict ch by (cases ch) (auto simp: completion_shaped_def split: list.splits json.splits)
  show ?thesis
  proof (cases ch)
    case (JList xs)
    with t obtain x rest where xs: "xs = x # rest"
      by (cases xs) simp_all
    show ?thesis
    proof (cases x)
      case (JDict c)
      with assms \<open>data = JDict d\<close> ch JList xs
      have nf: "\<not> falsy_or_object (map_of c (u ''message''))"
        by (simp add: completion_shaped_def)
      then obtain m where m: "map_of c (u ''message'') = Some m"
        by (cases "map_of c (u ''message'')") simp_all
      with nf have "truthy m" and "\<forall>kvs. m \<noteq> JDict kvs"
        by (cases m; simp)+
      then have "py_get (or_else m (JDict [])) (u ''content'') = Inl AttributeError"
        by (cases m) (simp_all add: or_else_def)
      with \<open>data = JDict d\<close> ch JList xs JDict m show ?thesis
        by (simp add: success_answer_def and_then_def or_else_def)
    qed (use \<open>data = JDict d\<close> ch JList xs in
          \<open>simp_all add: success_answer_def and_then_def or_else_def\<close>)
  qed (use \<open>data = JDict d\<close> ch t in
        \<open>auto simp add: success_answer_def and_then_def or_else_def neq_Nil_conv\<close>)
qed (simp_all add: success_answer_def and_then_def)




text \<open>
  Two contents that the handler returns and the framework cannot render: a str with a
  surrogate (the JSON text \<open>"\ud800"\<close>) and the float \<open>inf\<close> (the JSON text \<open>1e999\<close>). The
  handler returns the answer, and the caller receives status 500.
\<close>

lemma surrogate_content_status:
  "fst (chat rt (Some (u ''sk''))
      (\<lambda>call. Inr (200, Inr (JDict [(u ''choices'',
          JList [JDict [(u ''message'', JDict [(u ''content'', JStr [55296])])]])])))
      req) = Returned (JDict [(u ''answer'', JStr [55296])])
   \<and> http_status (fst (chat rt (Some (u ''sk''))
      (\<lambda>call. Inr (200, Inr (JDict [(u ''choices'',
          JList [JDict [(u ''message'', JDict [(u ''content'', JStr [55296])])]])])))
      req)) = 500"
  by (simp add: chat_simps encodable_def scalar_def)

lemma nonfinite_content_status:
  "fst (chat rt (Some (u ''sk''))
      (\<lambda>call. Inr (200, Inr (JDict [(u ''choices'',
          JList [JDict [(u ''message'', JDict [(u ''content'', JNonFinite PosInf)])]])])))
      req) = Returned (JDict [(u ''answer'', JNonFinite PosInf)])
   \<and> http_status (fst (chat rt (Some (u ''sk''))
      (\<lambda>call. Inr (200, Inr (JDict [(u ''choices'',
          JList [JDict [(u ''message'', JDict [(u ''content'', JNonFinite PosInf)])]])])))
      req)) = 500"
  by (simp add: chat_simps encodable_u)

text \<open>
  Claim C9. For an upstream response with a status below 400 whose first choice's message
  content is present but false (the empty string, null, zero, an empty container),
  \<open>/chat\<close> returns the fallback answer with status 200.
\<close>

theorem falsy_content_fallback:
  assumes "k \<noteq> []" and "upstream (upstream_request k req) = Inr (status, Inr data)"
    and "status < 400" and "first_choice_content data = Some v" and "\<not> truthy v"
  shows "fst (chat rt (Some k) upstream req) = Returned (JDict [(u ''answer'', JStr no_response)])
       \<and> http_status (fst (chat rt (Some k) upstream req)) = 200"
  using assms content_present_shaped [OF assms(4)]
  by (simp add: chat_success success_answer_shaped finish_def answer_def
      encodable_u encodable_no_response)

text \<open>
  The theorem at a body whose content is null.
\<close>

theorem falsy_content_fallback_witness:
  "u ''sk'' \<noteq> [] \<and> (200::int) < 400 \<and> \<not> truthy JNull
   \<and> first_choice_content
        (JDict [(u ''choices'', JList [JDict [(u ''message'', JDict [(u ''content'', JNull)])]])])
       = Some JNull
   \<and> (\<forall>rt req.
        fst (chat rt (Some (u ''sk''))
          (\<lambda>call. Inr (200, Inr (JDict [(u ''choices'',
              JList [JDict [(u ''message'', JDict [(u ''content'', JNull)])]])])))
          req) = Returned (JDict [(u ''answer'', JStr no_response)]))"
proof -
  let ?data = "JDict [(u ''choices'', JList [JDict [(u ''message'', JDict [(u ''content'', JNull)])]])]"
  have k: "u ''sk'' \<noteq> []"
    by (simp add: u_eq_Nil)
  have c: "first_choice_content ?data = Some JNull"
    by (simp add: first_choice_content_def)
  have "fst (chat rt (Some (u ''sk'')) (\<lambda>call. Inr (200, Inr ?data)) req)
      = Returned (JDict [(u ''answer'', JStr no_response)])" for rt req
    using falsy_content_fallback [OF k _ _ c, of "\<lambda>call. Inr (200, Inr ?data)" req 200 rt]
    by simp
  with k c show ?thesis
    by simp
qed

subsection \<open>Upstream answers with a status of 400 or more\<close>

text \<open>
  For an error body that is an object whose \<open>error\<close> field is missing, false or an
  object, the message is extracted and the answer is built from it; the two examples of
  the specification follow.
\<close>

lemma error_msg_shaped:
  assumes "falsy_or_object (map_of d (u ''error''))"
  shows "\<exists>msg. error_msg rt (JDict d) = Inr msg"
proof (cases "map_of d (u ''error'')")
  case None
  then show ?thesis
    by (simp add: error_msg_def and_then_def or_else_def)
next
  case (Some err)
  show ?thesis
  proof (cases "truthy err")
    case False
    with Some show ?thesis
      by (simp add: error_msg_def and_then_def or_else_def)
  next
    case True
    with assms Some obtain kvs where "err = JDict kvs"
      by (cases err) simp_all
    with Some True show ?thesis
      by (simp add: error_msg_def and_then_def or_else_def)
  qed
qed

lemma error_answer_shaped:
  assumes "falsy_or_object (map_of d (u ''error''))"
  shows "\<exists>msg. error_msg rt (JDict d) = Inr msg
     \<and> error_answer rt (JDict d) =
         Inr (JDict [(u ''answer'', JStr
           (if str_in (u ''insufficient balance'') (lower rt (py_str rt msg)) then unavailable
            else u ''DeepSeek API error: '' @ py_str rt msg))])"
proof -
  from error_msg_shaped [OF assms] obtain msg where "error_msg rt (JDict d) = Inr msg"
    by blast
  then show ?thesis
    by (simp add: error_answer_def and_then_def answer_def)
qed

lemma error_answer_raises:
  assumes "map_of d (u ''error'') = Some err" and "truthy err" and "\<forall>kvs. err \<noteq> JDict kvs"
  shows "error_answer rt (JDict d) = Inl AttributeError"
  using assms
  by (cases err) (simp_all add: error_answer_def error_msg_def and_then_def or_else_def)

lemma insufficient_balance_example:
  "fst (chat rt (Some (u ''sk''))
      (\<lambda>call. Inr (402, Inr (JDict [(u ''error'', JDict [(u ''message'', JStr (u ''Insufficient Balance''))])])))
      req) = Returned (JDict [(u ''answer'', JStr unavailable)])"
proof -
  have "lower rt (u ''Insufficient Balance'') = map ascii_lower (u ''Insufficient Balance'')"
    by (rule lower_ascii) (simp add: u_def)
  then have "str_in (u ''insufficient balance'') (lower rt (u ''Insufficient Balance''))"
    by (simp add: u_def ascii_lower_def)
  then show ?thesis
    by (simp add: chat_simps)
qed

lemma bad_request_example:
  "fst (chat rt (Some (u ''sk''))
      (\<lambda>call. Inr (400, Inr (JDict [(u ''message'', JStr (u ''bad request''))])))
      req) = Returned (JDict [(u ''answer'', JStr (u ''DeepSeek API error: bad request''))])"
proof -
  have "lower rt (u ''bad request'') = map ascii_lower (u ''bad request'')"
    by (rule lower_ascii) (simp add: u_def)
  then have "\<not> str_in (u ''insufficient balance'') (lower rt (u ''bad request''))"
    by (simp add: u_def ascii_lower_def)
  then show ?thesis
    by (simp add: chat_simps) (simp add: u_def)
qed

text \<open>
  Claim C3 at an input where the handler does not follow it: the upstream answers 401
  with the body \<open>{"error": "Invalid API key"}\<close>. The field \<open>error\<close> holds a string, the
  handler calls \<open>get\<close> on it, and the \<open>AttributeError\<close> escapes: the caller receives
  status 500 and no answer.
\<close>

theorem text_error_field_escapes:
  "chat rt (Some (u ''sk''))
      (\<lambda>call. Inr (401, Inr (JDict [(u ''error'', JStr (u ''Invalid API key''))])))
      req = (Uncaught AttributeError, [upstream_request (u ''sk'') req])
   \<and> http_status (Uncaught AttributeError) = 500"
  by (simp add: chat_simps)

subsection \<open>Transport failures\<close>

text \<open>
  An exception of the call or of the parsing of the body becomes an \<open>HTTPException\<close>
  with status 500 and the text of the exception as detail; the caller receives status
  500, and the detail as the body when the text renders.
\<close>

lemma transport_failure:
  assumes "k \<noteq> []"
    and "upstream (upstream_request k req) = Inl t
       \<or> upstream (upstream_request k req) = Inr (status, Inl t)"
  shows "fst (chat rt (Some k) upstream req) = HTTPException 500 t
       \<and> http_status (fst (chat rt (Some k) upstream req)) = 500
       \<and> http_body (fst (chat rt (Some k) upstream req)) =
           (if encodable t then JDict [(u ''detail'', JStr t)]
            else JStr (u ''Internal Server Error''))"
  using assms by (auto simp: chat_def Let_def)

text \<open>
  Claim C6 at an input where the handler does not follow it: the upstream answers 200
  with the JSON body \<open>[]\<close>. Nothing fails in the transport, yet the handler calls \<open>get\<close>
  on a list and the caller receives status 500.
\<close>

theorem list_body_escapes:
  "chat rt (Some (u ''sk'')) (\<lambda>call. Inr (200, Inr (JList []))) req
     = (Uncaught AttributeError, [upstream_request (u ''sk'') req])
   \<and> http_status (Uncaught AttributeError) = 500"
  by (simp add: chat_simps)

end
